theory Spec2Isabelle
  imports Complex_Main
begin

section \<open>Correlograms of spike trains: a model of \<open>postprocessing/correlograms.py\<close>\<close>

text \<open>
  The development follows the Python module function by function. Conventions:
  \<^item> Python integers and the \<open>int64\<close> sample indices are HOL integers (no sample index of
    a recording comes near \<open>2^63\<close>, and the code does no arithmetic that could wrap).
  \<^item> Python floats (\<open>sampling_frequency\<close>, \<open>window_ms\<close>, \<open>bin_ms\<close>, the bin edges) are
    rationals: the arithmetic of \<open>_make_bins\<close> is taken exactly, rounding errors of the
    floating-point unit are not modelled.
  \<^item> Every exception of the source is a value of \<open>error\<close>; a function that can raise
    returns \<open>error + 'a\<close> with \<open>Inl\<close> for the exception.
  \<^item> A leading underscore of a Python name is written as the prefix \<open>priv_\<close>, since an
    Isabelle name cannot start with an underscore.
  \<^item> The module-level flag \<open>HAVE_NUMBA\<close> is the parameter \<open>have_numba\<close> of the functions
    that read it.
  \<^item> An \<open>assert\<close> statement is executed (Python is not run with \<open>-O\<close>).
\<close>

subsection \<open>Exceptions\<close>

datatype error =
    AssertionError      \<comment> \<open>a failed \<open>assert\<close>\<close>
  | ZeroDivisionError   \<comment> \<open>\<open>%\<close> or \<open>//\<close> by zero on Python integers\<close>
  | ValueError          \<comment> \<open>numpy: shapes that do not broadcast, a coordinate out of range,
                            a negative dimension\<close>
  | TypeError           \<comment> \<open>a call with the wrong number of positional arguments\<close>
  | IndexError          \<comment> \<open>an index out of range in checked (interpreted) indexing\<close>
  | AttributeError      \<comment> \<open>an attribute that the object does not have\<close>
  | OutOfBounds int nat \<comment> \<open>numba's unchecked indexing: index and array length of an access
                            outside the array (undefined behaviour in the compiled code)\<close>

subsection \<open>Python and numpy primitives\<close>

text \<open>\<open>round(x)\<close> on a float: to the nearest integer, a tie to the even neighbour.\<close>

definition py_round :: "rat \<Rightarrow> int" where
  "py_round x =
     (let f = \<lfloor>x\<rfloor>; r = x - of_int f
      in if r < 1 / 2 then f
         else if 1 / 2 < r then f + 1
         else if even f then f else f + 1)"

text \<open>\<open>int(x)\<close> on a float truncates towards zero.\<close>

definition py_int :: "rat \<Rightarrow> int" where
  "py_int x = (if 0 \<le> x then \<lfloor>x\<rfloor> else \<lceil>x\<rceil>)"

text \<open>
  \<open>np.arange(start, stop, step)\<close> on integers has \<open>ceil((stop - start) / step)\<close>
  elements \<open>start + k * step\<close>. The only call has \<open>step = bin_size\<close>, which is not
  zero at that point.
\<close>

definition np_arange :: "int \<Rightarrow> int \<Rightarrow> int \<Rightarrow> int list" where
  "np_arange start stop step =
     map (\<lambda>k. start + int k * step)
       [0 ..< nat \<lceil>(of_int (stop - start) :: rat) / of_int step\<rceil>]"

subsection \<open>The sorting object\<close>

text \<open>
  Modelled from the spec: the class of the sorting object (\<open>BaseSorting\<close>) is defined
  outside this module. Of the event-stream collaborator the core needs the sampling rate,
  the total unit count, and per segment the time-ordered sequence of events with each
  event's unit label. The module reads them as \<open>sorting.sampling_frequency\<close>,
  \<open>len(sorting.unit_ids)\<close>, \<open>sorting.get_num_segments()\<close> and
  \<open>sorting.to_spike_vector(concatenated=False)\<close>: one structured array per segment with
  the fields \<open>sample_index\<close> and \<open>unit_index\<close>. The number of segments is the length
  of that list, and the loops over \<open>range(num_seg)\<close> run through it.
\<close>

record sorting =
  sampling_frequency :: rat
  unit_ids :: "nat list"
  spike_vector :: "(int \<times> int) list list"

definition sample_index :: "(int \<times> int) list \<Rightarrow> int list" where
  "sample_index seg = map fst seg"

definition unit_index :: "(int \<times> int) list \<Rightarrow> int list" where
  "unit_index seg = map snd seg"

subsection \<open>Bin geometry: \<open>_make_bins\<close> and \<open>_compute_num_bins\<close>\<close>

text \<open>
  \<^verbatim>\<open>
  window_size = int(round(fs * window_ms / 2 * 1e-3))
  bin_size = int(round(fs * bin_ms * 1e-3))
  window_size -= window_size % bin_size
  num_bins = 2 * int(window_size / bin_size)
  assert num_bins >= 1
  bins = np.arange(-window_size, window_size + bin_size, bin_size) * 1e3 / fs
  return bins, window_size, bin_size
  \<close>
  The remainder by \<open>bin_size = 0\<close> raises \<open>ZeroDivisionError\<close> before the assertion is
  reached.
\<close>

definition priv_make_bins :: "sorting \<Rightarrow> rat \<Rightarrow> rat \<Rightarrow> error + (rat list \<times> int \<times> int)" where
  "priv_make_bins sorting window_ms bin_ms =
     (let fs = sampling_frequency sorting;
          window_size0 = py_round (fs * window_ms / 2 * (1 / 1000));
          bin_size = py_round (fs * bin_ms * (1 / 1000))
      in if bin_size = 0 then Inl ZeroDivisionError
         else
           let window_size = window_size0 - window_size0 mod bin_size;
               num_bins = 2 * py_int (of_int window_size / of_int bin_size)
           in if num_bins \<ge> 1
              then Inr (map (\<lambda>e. of_int e * 1000 / fs)
                          (np_arange (- window_size) (window_size + bin_size) bin_size),
                        window_size, bin_size)
              else Inl AssertionError)"

text \<open>
  \<^verbatim>\<open>
  num_half_bins = int(window_size // bin_size)
  num_bins = int(2 * num_half_bins)
  return num_bins, num_half_bins
  \<close>
\<close>

definition priv_compute_num_bins :: "int \<Rightarrow> int \<Rightarrow> error + (int \<times> int)" where
  "priv_compute_num_bins window_size bin_size =
     (if bin_size = 0 then Inl ZeroDivisionError
      else let num_half_bins = window_size div bin_size
           in Inr (2 * num_half_bins, num_half_bins))"

subsection \<open>Count tensors\<close>

text \<open>
  A numpy array of shape \<open>(d0, d1, d2)\<close> is its shape and its elements in row-major
  order, which is what \<open>ravel()\<close> views. \<open>np.zeros\<close> refuses a negative dimension.
\<close>

datatype tensor = Tensor (tshape: "nat \<times> nat \<times> nat") (tflat: "int list")

definition np_zeros3 :: "nat \<Rightarrow> nat \<Rightarrow> int \<Rightarrow> error + tensor" where
  "np_zeros3 d0 d1 d2 =
     (if d2 < 0 then Inl ValueError
      else Inr (Tensor (d0, d1, nat d2) (replicate (d0 * d1 * nat d2) 0)))"

text \<open>The slice \<open>t[a, b, :]\<close>, and the sum of all entries.\<close>

definition slice3 :: "tensor \<Rightarrow> nat \<Rightarrow> nat \<Rightarrow> int list" where
  "slice3 t a b =
     (case tshape t of (d0, d1, d2) \<Rightarrow> take d2 (drop ((a * d1 + b) * d2) (tflat t)))"

definition tensor_total :: "tensor \<Rightarrow> int" where
  "tensor_total t = sum_list (tflat t)"

text \<open>
  \<open>a += b\<close> on arrays broadcasts \<open>b\<close> to the shape of \<open>a\<close>: every dimension of \<open>b\<close>
  is the one of \<open>a\<close> or is 1; any other pair of shapes raises \<open>ValueError\<close>.
\<close>

definition np_iadd :: "tensor \<Rightarrow> tensor \<Rightarrow> error + tensor" where
  "np_iadd a b =
     (case tshape a of (a0, a1, a2) \<Rightarrow>
      case tshape b of (b0, b1, b2) \<Rightarrow>
        if (b0 = a0 \<or> b0 = 1) \<and> (b1 = a1 \<or> b1 = 1) \<and> (b2 = a2 \<or> b2 = 1)
        then Inr (Tensor (a0, a1, a2)
               (map (\<lambda>n. tflat a ! n +
                      tflat b !
                        (((if b0 = 1 then 0 else n div (a1 * a2)) * b1 +
                          (if b1 = 1 then 0 else (n div a2) mod a1)) * b2 +
                         (if b2 = 1 then 0 else n mod a2)))
                  [0 ..< a0 * a1 * a2]))
        else Inl ValueError)"

text \<open>
  \<open>np.ravel_multi_index(coords, shape)\<close> in its default mode raises \<open>ValueError\<close> when
  a coordinate is outside its dimension.
\<close>

definition ravel_multi_index ::
  "int list \<times> int list \<times> int list \<Rightarrow> nat \<times> nat \<times> nat \<Rightarrow> error + nat list" where
  "ravel_multi_index coords shp =
     (case coords of (c0, c1, c2) \<Rightarrow>
      case shp of (d0, d1, d2) \<Rightarrow>
        if list_all (\<lambda>(x, y, z). 0 \<le> x \<and> x < int d0 \<and> 0 \<le> y \<and> y < int d1 \<and>
                                   0 \<le> z \<and> z < int d2)
             (zip c0 (zip c1 c2))
        then Inr (map (\<lambda>(x, y, z). (nat x * d1 + nat y) * d2 + nat z) (zip c0 (zip c1 c2)))
        else Inl ValueError)"

text \<open>\<open>np.bincount\<close>: how often each of \<open>0 .. max\<close> occurs; empty on an empty input.\<close>

definition bincount :: "nat list \<Rightarrow> int list" where
  "bincount xs =
     (if xs = [] then []
      else map (\<lambda>k. int (count_list xs k)) [0 ..< Suc (fold max xs 0)])"

text \<open>\<open>correlograms.ravel()[: len(bbins)] += bbins\<close>, in place through the view.\<close>

definition add_prefix :: "tensor \<Rightarrow> int list \<Rightarrow> tensor" where
  "add_prefix t bbins =
     Tensor (tshape t)
       (map2 (+) (take (length bbins) (tflat t)) bbins @ drop (length bbins) (tflat t))"

text \<open>Boolean-mask selection \<open>arr[m]\<close>, and \<open>mask[:k][cond] = False\<close>.\<close>

definition np_select :: "'a list \<Rightarrow> bool list \<Rightarrow> 'a list" where
  "np_select arr m = map fst (filter snd (zip arr m))"

definition mask_out :: "bool list \<Rightarrow> nat \<Rightarrow> bool list \<Rightarrow> bool list" where
  "mask_out msk k cond =
     map2 (\<lambda>alive c. alive \<and> \<not> c) (take k msk) cond @ drop k msk"

subsection \<open>The numpy strategy: \<open>correlogram_for_one_segment\<close>\<close>

text \<open>
  One pass of the body of \<open>for sign in (-1, 1)\<close> at a given \<open>shift\<close>:
  \<^verbatim>\<open>
  spike_diff = spike_times[shift:] - spike_times[:-shift]
  spike_diff_b = (spike_diff * sign) // bin_size
  if sign == -1:
      mask[:-shift][spike_diff_b < -num_half_bins] = False
  else:
      mask[:-shift][spike_diff_b >= num_half_bins] = False
  m = mask[:-shift]
  if sign == 1:
      indices = np.ravel_multi_index(
          (spike_labels[+shift:][m], spike_labels[:-shift][m], spike_diff_b[m] + num_half_bins),
          correlograms.shape)
  else:
      indices = np.ravel_multi_index(
          (spike_labels[:-shift][m], spike_labels[+shift:][m], spike_diff_b[m] + num_half_bins),
          correlograms.shape)
  bbins = np.bincount(indices)
  correlograms.ravel()[: len(bbins)] += bbins
  \<close>
  The state is the mask and the tensor, both updated in place by the source. With
  \<open>shift \<ge> 1\<close> the slice \<open>a[:-shift]\<close> is \<open>take (length a - shift) a\<close>. The two fields
  of the structured array give \<open>spike_times\<close> and \<open>spike_labels\<close> the same length, which
  is also the length of the mask, so every boolean index has the length of the array it
  selects from.
\<close>

definition sign_pass ::
  "int \<Rightarrow> int list \<Rightarrow> int list \<Rightarrow> int \<Rightarrow> int \<Rightarrow> nat \<Rightarrow> bool list \<Rightarrow> tensor
     \<Rightarrow> error + (bool list \<times> tensor)" where
  "sign_pass sign spike_times spike_labels bin_size num_half_bins shift msk correlograms =
     (let spike_diff = map2 (-) (drop shift spike_times)
                         (take (length spike_times - shift) spike_times);
          spike_diff_b = map (\<lambda>d. (d * sign) div bin_size) spike_diff;
          msk' = (if sign = - 1
                  then mask_out msk (length msk - shift)
                         (map (\<lambda>b. b < - num_half_bins) spike_diff_b)
                  else mask_out msk (length msk - shift)
                         (map (\<lambda>b. b \<ge> num_half_bins) spike_diff_b));
          m = take (length msk' - shift) msk';
          lab_lo = np_select (take (length spike_labels - shift) spike_labels) m;
          lab_hi = np_select (drop shift spike_labels) m;
          bins = map (\<lambda>b. b + num_half_bins) (np_select spike_diff_b m);
          coords = (if sign = 1 then (lab_hi, lab_lo, bins) else (lab_lo, lab_hi, bins))
      in case_sum Inl (\<lambda>indices. Inr (msk', add_prefix correlograms (bincount indices)))
           (ravel_multi_index coords (tshape correlograms)))"

text \<open>
  \<^verbatim>\<open>
  shift = 1
  while mask[:-shift].any():
      for sign in (-1, 1): ...
      shift += 1
  return correlograms
  \<close>
\<close>

function shift_loop ::
  "int list \<Rightarrow> int list \<Rightarrow> int \<Rightarrow> int \<Rightarrow> nat \<Rightarrow> bool list \<Rightarrow> tensor \<Rightarrow> error + tensor" where
  "shift_loop spike_times spike_labels bin_size num_half_bins shift msk correlograms =
     (if list_ex id (take (length msk - shift) msk)
      then (case sign_pass (- 1) spike_times spike_labels bin_size num_half_bins shift
                   msk correlograms of
              Inl e \<Rightarrow> Inl e
            | Inr st1 \<Rightarrow>
               (case sign_pass 1 spike_times spike_labels bin_size num_half_bins shift
                       (fst st1) (snd st1) of
                  Inl e \<Rightarrow> Inl e
                | Inr st2 \<Rightarrow>
                    shift_loop spike_times spike_labels bin_size num_half_bins (shift + 1)
                      (fst st2) (snd st2)))
      else Inr correlograms)"
  by pat_completeness auto

text \<open>
  \<^verbatim>\<open>
  num_bins, num_half_bins = _compute_num_bins(window_size, bin_size)
  num_units = len(np.unique(spike_labels))
  correlograms = np.zeros((num_units, num_units, num_bins), dtype="int64")
  mask = np.ones_like(spike_times, dtype="bool")
  \<close>
  followed by the loop. The number of units is the number of distinct labels that occur
  in this segment.
\<close>

definition correlogram_for_one_segment ::
  "int list \<Rightarrow> int list \<Rightarrow> int \<Rightarrow> int \<Rightarrow> error + tensor" where
  "correlogram_for_one_segment spike_times spike_labels window_size bin_size =
     (case priv_compute_num_bins window_size bin_size of
        Inl e \<Rightarrow> Inl e
      | Inr nb \<Rightarrow>
         (let num_units = length (remdups spike_labels)
          in case np_zeros3 num_units num_units (fst nb) of
               Inl e \<Rightarrow> Inl e
             | Inr correlograms \<Rightarrow>
                 shift_loop spike_times spike_labels bin_size (snd nb) 1
                   (replicate (length spike_times) True) correlograms))"

text \<open>
  \<open>compute_correlograms_numpy\<close>: the loop over the segments,
  \<^verbatim>\<open>
  c0 = correlogram_for_one_segment(spike_times, spike_labels, window_size, bin_size)
  correlograms += c0
  \<close>
  and the function around it, whose tensor has \<open>len(sorting.unit_ids)\<close> units.
\<close>

fun numpy_segments :: "(int \<times> int) list list \<Rightarrow> int \<Rightarrow> int \<Rightarrow> tensor \<Rightarrow> error + tensor" where
  "numpy_segments [] window_size bin_size correlograms = Inr correlograms"
| "numpy_segments (seg # segs) window_size bin_size correlograms =
     (case correlogram_for_one_segment (sample_index seg) (unit_index seg)
             window_size bin_size of
        Inl e \<Rightarrow> Inl e
      | Inr c0 \<Rightarrow>
         (case np_iadd correlograms c0 of
            Inl e \<Rightarrow> Inl e
          | Inr correlograms' \<Rightarrow> numpy_segments segs window_size bin_size correlograms'))"

definition compute_correlograms_numpy :: "sorting \<Rightarrow> int \<Rightarrow> int \<Rightarrow> error + tensor" where
  "compute_correlograms_numpy sorting window_size bin_size =
     (let num_units = length (unit_ids sorting)
      in case priv_compute_num_bins window_size bin_size of
           Inl e \<Rightarrow> Inl e
         | Inr nb \<Rightarrow>
            (case np_zeros3 num_units num_units (fst nb) of
               Inl e \<Rightarrow> Inl e
             | Inr correlograms \<Rightarrow>
                 numpy_segments (spike_vector sorting) window_size bin_size correlograms))"

subsection \<open>The numba strategy\<close>

text \<open>
  Compiled numba code indexes arrays without a bounds check: a negative index wraps
  around once, and an index that is still outside the array reads and writes memory that
  is not the array's. The model stops there with \<open>OutOfBounds\<close>.
\<close>

definition numba_incr :: "int list \<Rightarrow> int \<Rightarrow> error + int list" where
  "numba_incr arr idx =
     (let n = int (length arr); k = (if idx < 0 then idx + n else idx)
      in if 0 \<le> k \<and> k < n then Inr (arr[nat k := arr ! nat k + 1])
         else Inl (OutOfBounds idx (length arr)))"

text \<open>
  \<open>_compute_autocorr_numba\<close>:
  \<^verbatim>\<open>
  num_half_bins = window_size // bin_size
  num_bins = 2 * num_half_bins
  auto_corr = np.zeros(num_bins, dtype=np.int64)
  for i in range(len(spike_times)):
      for j in range(i + 1, len(spike_times)):
          diff = spike_times[j] - spike_times[i]
          if diff > window_size:
              break
          bin = int(math.floor(diff / bin_size))
          auto_corr[num_half_bins + bin] += 1
          bin = int(math.floor(-diff / bin_size))
          auto_corr[num_half_bins + bin] += 1
  return auto_corr
  \<close>
  The inner loop runs over the spikes after spike \<open>i\<close>, the outer loop over all spikes.
\<close>

fun autocorr_inner :: "int \<Rightarrow> int list \<Rightarrow> int \<Rightarrow> int \<Rightarrow> int \<Rightarrow> int list \<Rightarrow> error + int list" where
  "autocorr_inner ti [] window_size bin_size num_half_bins auto_corr = Inr auto_corr"
| "autocorr_inner ti (tj # rest) window_size bin_size num_half_bins auto_corr =
     (let diff = tj - ti
      in if diff > window_size then Inr auto_corr
         else (case numba_incr auto_corr (num_half_bins + diff div bin_size) of
                 Inl e \<Rightarrow> Inl e
               | Inr auto_corr1 \<Rightarrow>
                  (case numba_incr auto_corr1 (num_half_bins + (- diff) div bin_size) of
                     Inl e \<Rightarrow> Inl e
                   | Inr auto_corr2 \<Rightarrow>
                       autocorr_inner ti rest window_size bin_size num_half_bins auto_corr2)))"

fun autocorr_outer :: "int list \<Rightarrow> int \<Rightarrow> int \<Rightarrow> int \<Rightarrow> int list \<Rightarrow> error + int list" where
  "autocorr_outer [] window_size bin_size num_half_bins auto_corr = Inr auto_corr"
| "autocorr_outer (ti # rest) window_size bin_size num_half_bins auto_corr =
     (case autocorr_inner ti rest window_size bin_size num_half_bins auto_corr of
        Inl e \<Rightarrow> Inl e
      | Inr auto_corr' \<Rightarrow> autocorr_outer rest window_size bin_size num_half_bins auto_corr')"

definition priv_compute_autocorr_numba :: "int list \<Rightarrow> int \<Rightarrow> int \<Rightarrow> error + int list" where
  "priv_compute_autocorr_numba spike_times window_size bin_size =
     (if bin_size = 0 then Inl ZeroDivisionError
      else let num_half_bins = window_size div bin_size;
               num_bins = 2 * num_half_bins
           in if num_bins < 0 then Inl ValueError
              else autocorr_outer spike_times window_size bin_size num_half_bins
                     (replicate (nat num_bins) 0))"

text \<open>
  \<open>_compute_crosscorr_numba\<close>:
  \<^verbatim>\<open>
  start_j = 0
  for i in range(len(spike_times1)):
      for j in range(start_j, len(spike_times2)):
          diff = spike_times1[i] - spike_times2[j]
          if diff >= window_size:
              start_j += 1
              continue
          if diff < -window_size:
              break
          bin = int(math.floor(diff / bin_size))
          cross_corr[num_half_bins + bin] += 1
  return cross_corr
  \<close>
  The inner loop runs over \<open>spike_times2[start_j:]\<close> with the value \<open>start_j\<close> has when
  the loop starts, and hands the updated pointer to the next round of the outer loop.
\<close>

fun crosscorr_inner ::
  "int \<Rightarrow> int list \<Rightarrow> int \<Rightarrow> int \<Rightarrow> int \<Rightarrow> int list \<Rightarrow> nat \<Rightarrow> error + (int list \<times> nat)" where
  "crosscorr_inner ti [] window_size bin_size num_half_bins cross_corr start_j =
     Inr (cross_corr, start_j)"
| "crosscorr_inner ti (tj # rest) window_size bin_size num_half_bins cross_corr start_j =
     (let diff = ti - tj
      in if diff \<ge> window_size
         then crosscorr_inner ti rest window_size bin_size num_half_bins cross_corr (start_j + 1)
         else if diff < - window_size then Inr (cross_corr, start_j)
         else (case numba_incr cross_corr (num_half_bins + diff div bin_size) of
                 Inl e \<Rightarrow> Inl e
               | Inr cross_corr' \<Rightarrow>
                   crosscorr_inner ti rest window_size bin_size num_half_bins cross_corr' start_j))"

fun crosscorr_outer ::
  "int list \<Rightarrow> int list \<Rightarrow> int \<Rightarrow> int \<Rightarrow> int \<Rightarrow> int list \<Rightarrow> nat \<Rightarrow> error + int list" where
  "crosscorr_outer [] spike_times2 window_size bin_size num_half_bins cross_corr start_j =
     Inr cross_corr"
| "crosscorr_outer (ti # rest) spike_times2 window_size bin_size num_half_bins cross_corr start_j =
     (case crosscorr_inner ti (drop start_j spike_times2) window_size bin_size num_half_bins
             cross_corr start_j of
        Inl e \<Rightarrow> Inl e
      | Inr st \<Rightarrow>
          crosscorr_outer rest spike_times2 window_size bin_size num_half_bins (fst st) (snd st))"

definition priv_compute_crosscorr_numba ::
  "int list \<Rightarrow> int list \<Rightarrow> int \<Rightarrow> int \<Rightarrow> error + int list" where
  "priv_compute_crosscorr_numba spike_times1 spike_times2 window_size bin_size =
     (if bin_size = 0 then Inl ZeroDivisionError
      else let num_half_bins = window_size div bin_size;
               num_bins = 2 * num_half_bins
           in if num_bins < 0 then Inl ValueError
              else crosscorr_outer spike_times1 spike_times2 window_size bin_size num_half_bins
                     (replicate (nat num_bins) 0) 0)"

text \<open>
  \<open>correlograms[i, j, :] += v\<close> in compiled code. The unit indices come from
  \<open>range(n_units)\<close> and \<open>v\<close> has \<open>2 * (window_size // bin_size)\<close> entries; the model
  reports anything else as an error.
\<close>

definition add_slice :: "tensor \<Rightarrow> nat \<Rightarrow> nat \<Rightarrow> int list \<Rightarrow> error + tensor" where
  "add_slice t i j v =
     (case tshape t of (d0, d1, d2) \<Rightarrow>
        if d0 \<le> i then Inl (OutOfBounds (int i) d0)
        else if d1 \<le> j then Inl (OutOfBounds (int j) d1)
        else if length v \<noteq> d2 then Inl ValueError
        else Inr (Tensor (d0, d1, d2)
               (take ((i * d1 + j) * d2) (tflat t) @
                map2 (+) (take d2 (drop ((i * d1 + j) * d2) (tflat t))) v @
                drop ((i * d1 + j) * d2 + d2) (tflat t))))"

text \<open>
  \<open>_compute_correlograms_numba\<close>:
  \<^verbatim>\<open>
  n_units = correlograms.shape[0]
  for i in numba.prange(n_units):
      spike_times1 = spike_times[spike_labels == i]
      for j in range(i, n_units):
          spike_times2 = spike_times[spike_labels == j]
          if i == j:
              correlograms[i, j, :] += _compute_autocorr_numba(spike_times1, window_size, bin_size)
          else:
              cc = _compute_crosscorr_numba(spike_times1, spike_times2, window_size, bin_size)
              correlograms[i, j, :] += cc
              correlograms[j, i, :] += cc[::-1]
  \<close>
  The rounds of the parallel loop write disjoint slices, so the model runs them in order.
\<close>

definition times_of_unit :: "int list \<Rightarrow> int list \<Rightarrow> nat \<Rightarrow> int list" where
  "times_of_unit spike_times spike_labels i =
     np_select spike_times (map (\<lambda>l. l = int i) spike_labels)"

fun numba_units_inner ::
  "nat \<Rightarrow> int list \<Rightarrow> nat list \<Rightarrow> int list \<Rightarrow> int list \<Rightarrow> int \<Rightarrow> int \<Rightarrow> tensor
     \<Rightarrow> error + tensor" where
  "numba_units_inner i spike_times1 [] spike_times spike_labels window_size bin_size
     correlograms = Inr correlograms"
| "numba_units_inner i spike_times1 (j # js) spike_times spike_labels window_size bin_size
     correlograms =
     (let spike_times2 = times_of_unit spike_times spike_labels j
      in if i = j
         then (case priv_compute_autocorr_numba spike_times1 window_size bin_size of
                 Inl e \<Rightarrow> Inl e
               | Inr ac \<Rightarrow>
                  (case add_slice correlograms i j ac of
                     Inl e \<Rightarrow> Inl e
                   | Inr c1 \<Rightarrow>
                       numba_units_inner i spike_times1 js spike_times spike_labels
                         window_size bin_size c1))
         else (case priv_compute_crosscorr_numba spike_times1 spike_times2
                      window_size bin_size of
                 Inl e \<Rightarrow> Inl e
               | Inr cc \<Rightarrow>
                  (case add_slice correlograms i j cc of
                     Inl e \<Rightarrow> Inl e
                   | Inr c1 \<Rightarrow>
                      (case add_slice c1 j i (rev cc) of
                         Inl e \<Rightarrow> Inl e
                       | Inr c2 \<Rightarrow>
                           numba_units_inner i spike_times1 js spike_times spike_labels
                             window_size bin_size c2))))"

fun numba_units_outer ::
  "nat list \<Rightarrow> nat \<Rightarrow> int list \<Rightarrow> int list \<Rightarrow> int \<Rightarrow> int \<Rightarrow> tensor \<Rightarrow> error + tensor" where
  "numba_units_outer [] n_units spike_times spike_labels window_size bin_size correlograms =
     Inr correlograms"
| "numba_units_outer (i # is) n_units spike_times spike_labels window_size bin_size
     correlograms =
     (case numba_units_inner i (times_of_unit spike_times spike_labels i) [i ..< n_units]
             spike_times spike_labels window_size bin_size correlograms of
        Inl e \<Rightarrow> Inl e
      | Inr c1 \<Rightarrow>
          numba_units_outer is n_units spike_times spike_labels window_size bin_size c1)"

definition priv_compute_correlograms_numba ::
  "tensor \<Rightarrow> int list \<Rightarrow> int list \<Rightarrow> int \<Rightarrow> int \<Rightarrow> error + tensor" where
  "priv_compute_correlograms_numba correlograms spike_times spike_labels window_size bin_size =
     (let n_units = fst (tshape correlograms)
      in numba_units_outer [0 ..< n_units] n_units spike_times spike_labels
           window_size bin_size correlograms)"

text \<open>
  \<open>compute_correlograms_numba\<close>: the assertion on \<open>HAVE_NUMBA\<close>, the zero tensor for
  \<open>len(sorting.unit_ids)\<close> units, and one call of the kernel per segment on the same
  tensor. The block under \<open>if False:\<close> never runs and is left out.
\<close>

fun numba_segments :: "(int \<times> int) list list \<Rightarrow> int \<Rightarrow> int \<Rightarrow> tensor \<Rightarrow> error + tensor" where
  "numba_segments [] window_size bin_size correlograms = Inr correlograms"
| "numba_segments (seg # segs) window_size bin_size correlograms =
     (case priv_compute_correlograms_numba correlograms (sample_index seg) (unit_index seg)
             window_size bin_size of
        Inl e \<Rightarrow> Inl e
      | Inr correlograms' \<Rightarrow> numba_segments segs window_size bin_size correlograms')"

definition compute_correlograms_numba :: "bool \<Rightarrow> sorting \<Rightarrow> int \<Rightarrow> int \<Rightarrow> error + tensor" where
  "compute_correlograms_numba have_numba sorting window_size bin_size =
     (if \<not> have_numba then Inl AssertionError
      else case priv_compute_num_bins window_size bin_size of
             Inl e \<Rightarrow> Inl e
           | Inr nb \<Rightarrow>
              (let num_units = length (unit_ids sorting)
               in case np_zeros3 num_units num_units (fst nb) of
                    Inl e \<Rightarrow> Inl e
                  | Inr correlograms \<Rightarrow>
                      numba_segments (spike_vector sorting) window_size bin_size correlograms))"

subsection \<open>The entry function \<open>compute_correlograms_on_sorting\<close>\<close>

text \<open>
  \<^verbatim>\<open>
  assert method in ("auto", "numba", "numpy")
  if method == "auto":
      method = "numba" if HAVE_NUMBA else "numpy"
  bins, window_size, bin_size = _make_bins(sorting, window_ms, bin_ms)
  if method == "numpy":
      correlograms = compute_correlograms_numpy(sorting, window_size, bin_size)
  if method == "numba":
      correlograms = compute_correlograms_numba(sorting, window_size, bin_size)
  return correlograms, bins
  \<close>
\<close>

definition compute_correlograms_on_sorting ::
  "bool \<Rightarrow> sorting \<Rightarrow> rat \<Rightarrow> rat \<Rightarrow> string \<Rightarrow> error + (tensor \<times> rat list)" where
  "compute_correlograms_on_sorting have_numba sorting window_ms bin_ms method0 =
     (if method0 \<noteq> ''auto'' \<and> method0 \<noteq> ''numba'' \<and> method0 \<noteq> ''numpy''
      then Inl AssertionError
      else
        let method = (if method0 = ''auto''
                      then (if have_numba then ''numba'' else ''numpy'')
                      else method0)
        in case priv_make_bins sorting window_ms bin_ms of
             Inl e \<Rightarrow> Inl e
           | Inr geometry \<Rightarrow>
              (let bins = fst geometry;
                   window_size = fst (snd geometry);
                   bin_size = snd (snd geometry)
               in case (if method = ''numpy''
                        then compute_correlograms_numpy sorting window_size bin_size
                        else compute_correlograms_numba have_numba sorting
                               window_size bin_size) of
                    Inl e \<Rightarrow> Inl e
                  | Inr correlograms \<Rightarrow> Inr (correlograms, bins)))"

subsection \<open>The functions on single spike trains\<close>

text \<open>
  \<open>_compute_correlograms_one_segment_numba\<close> has six positional parameters. Its
  \<open>numba.jit\<close> decorator is commented out, so it runs as interpreted Python: indexing is
  checked (a negative index wraps around once, anything else outside raises
  \<open>IndexError\<close>), and \<open>//\<close> on an \<open>int64\<close> scalar gives 0 for a zero divisor, as \<open>div\<close>
  does.
  \<^verbatim>\<open>
  start_j = 0
  for i in range(spike_times.size):
      for j in range(start_j, spike_times.size):
          if i == j:
              continue
          diff = spike_times[i] - spike_times[j]
          if diff == window_size:
              continue
          if diff > window_size:
              start_j += 1
              continue
          if diff < -window_size:
              break
          bin = diff // bin_size
          correlograms[spike_labels[i], spike_labels[j], num_half_bins + bin] += 1
  \<close>
  The function updates \<open>correlograms\<close> in place and returns \<open>None\<close>; the model returns the
  updated tensor.
\<close>

definition np_incr3 :: "tensor \<Rightarrow> int \<Rightarrow> int \<Rightarrow> int \<Rightarrow> error + tensor" where
  "np_incr3 t x y z =
     (case tshape t of (d0, d1, d2) \<Rightarrow>
        let x' = (if x < 0 then x + int d0 else x);
            y' = (if y < 0 then y + int d1 else y);
            z' = (if z < 0 then z + int d2 else z)
        in if 0 \<le> x' \<and> x' < int d0 \<and> 0 \<le> y' \<and> y' < int d1 \<and> 0 \<le> z' \<and> z' < int d2
           then Inr (Tensor (d0, d1, d2)
                  ((tflat t)[(nat x' * d1 + nat y') * d2 + nat z' :=
                     tflat t ! ((nat x' * d1 + nat y') * d2 + nat z') + 1]))
           else Inl IndexError)"

fun one_segment_inner ::
  "nat \<Rightarrow> nat list \<Rightarrow> int list \<Rightarrow> int list \<Rightarrow> int \<Rightarrow> int \<Rightarrow> int \<Rightarrow> tensor \<Rightarrow> nat
     \<Rightarrow> error + (tensor \<times> nat)" where
  "one_segment_inner i [] spike_times spike_labels window_size bin_size num_half_bins
     correlograms start_j = Inr (correlograms, start_j)"
| "one_segment_inner i (j # js) spike_times spike_labels window_size bin_size num_half_bins
     correlograms start_j =
     (if i = j
      then one_segment_inner i js spike_times spike_labels window_size bin_size
             num_half_bins correlograms start_j
      else let diff = spike_times ! i - spike_times ! j
           in if diff = window_size
              then one_segment_inner i js spike_times spike_labels window_size bin_size
                     num_half_bins correlograms start_j
              else if diff > window_size
              then one_segment_inner i js spike_times spike_labels window_size bin_size
                     num_half_bins correlograms (start_j + 1)
              else if diff < - window_size then Inr (correlograms, start_j)
              else if length spike_labels \<le> i \<or> length spike_labels \<le> j
              then Inl IndexError
              else (case np_incr3 correlograms (spike_labels ! i) (spike_labels ! j)
                           (num_half_bins + diff div bin_size) of
                      Inl e \<Rightarrow> Inl e
                    | Inr correlograms' \<Rightarrow>
                        one_segment_inner i js spike_times spike_labels window_size bin_size
                          num_half_bins correlograms' start_j))"

fun one_segment_outer ::
  "nat list \<Rightarrow> int list \<Rightarrow> int list \<Rightarrow> int \<Rightarrow> int \<Rightarrow> int \<Rightarrow> tensor \<Rightarrow> nat
     \<Rightarrow> error + tensor" where
  "one_segment_outer [] spike_times spike_labels window_size bin_size num_half_bins
     correlograms start_j = Inr correlograms"
| "one_segment_outer (i # is) spike_times spike_labels window_size bin_size num_half_bins
     correlograms start_j =
     (case one_segment_inner i [start_j ..< length spike_times] spike_times spike_labels
             window_size bin_size num_half_bins correlograms start_j of
        Inl e \<Rightarrow> Inl e
      | Inr st \<Rightarrow>
          one_segment_outer is spike_times spike_labels window_size bin_size num_half_bins
            (fst st) (snd st))"

definition priv_compute_correlograms_one_segment_numba ::
  "tensor \<Rightarrow> int list \<Rightarrow> int list \<Rightarrow> int \<Rightarrow> int \<Rightarrow> int \<Rightarrow> error + tensor" where
  "priv_compute_correlograms_one_segment_numba correlograms spike_times spike_labels
     window_size bin_size num_half_bins =
     one_segment_outer [0 ..< length spike_times] spike_times spike_labels
       window_size bin_size num_half_bins correlograms 0"

text \<open>
  A Python call binds the positional arguments to the parameters of the \<open>def\<close> and
  raises \<open>TypeError\<close> when their number is not the number of parameters. The arguments
  of a call are a list of values; six values of the kinds the body expects run the body.
  Six values of other kinds fail inside the body, first of all at an attribute or an
  index that the value does not have; the model reports \<open>AttributeError\<close> for all of
  them.
\<close>

datatype pyval = PyArray "int list" | PyInt int | PyTensor tensor

definition call_one_segment_numba :: "pyval list \<Rightarrow> error + tensor" where
  "call_one_segment_numba args =
     (if length args \<noteq> 6 then Inl TypeError
      else case (args ! 0, args ! 1, args ! 2, args ! 3, args ! 4, args ! 5) of
             (PyTensor correlograms, PyArray spike_times, PyArray spike_labels,
              PyInt window_size, PyInt bin_size, PyInt num_half_bins) \<Rightarrow>
               priv_compute_correlograms_one_segment_numba correlograms spike_times
                 spike_labels window_size bin_size num_half_bins
           | _ \<Rightarrow> Inl AttributeError)"

text \<open>
  \<^verbatim>\<open>
  def compute_autocorrelogram_from_spiketrain(spike_times, window_size, bin_size):
      assert HAVE_NUMBA
      return _compute_correlograms_one_segment_numba(
          spike_times.astype(np.int64, copy=False), window_size, bin_size)

  def compute_crosscorrelogram_from_spiketrain(spike_times1, spike_times2, window_size, bin_size):
      assert HAVE_NUMBA
      return _compute_correlograms_one_segment_numba(
          spike_times1.astype(np.int64), spike_times2.astype(np.int64, copy=False),
          window_size, bin_size)
  \<close>
  The conversion to \<open>int64\<close> leaves an integer array as it is.
\<close>

definition compute_autocorrelogram_from_spiketrain ::
  "bool \<Rightarrow> int list \<Rightarrow> int \<Rightarrow> int \<Rightarrow> error + tensor" where
  "compute_autocorrelogram_from_spiketrain have_numba spike_times window_size bin_size =
     (if \<not> have_numba then Inl AssertionError
      else call_one_segment_numba [PyArray spike_times, PyInt window_size, PyInt bin_size])"

definition compute_crosscorrelogram_from_spiketrain ::
  "bool \<Rightarrow> int list \<Rightarrow> int list \<Rightarrow> int \<Rightarrow> int \<Rightarrow> error + tensor" where
  "compute_crosscorrelogram_from_spiketrain have_numba spike_times1 spike_times2
     window_size bin_size =
     (if \<not> have_numba then Inl AssertionError
      else call_one_segment_numba
             [PyArray spike_times1, PyArray spike_times2, PyInt window_size, PyInt bin_size])"

subsection \<open>The conservation count of the specification\<close>

text \<open>
  The specification counts, segment by segment, the ordered pairs of distinct events
  whose signed time difference lies in \<open>(-window_size, window_size]\<close>. This definition
  follows the specification's words, for comparison with the totals of the code.
\<close>

definition spec_pairs_in_segment :: "int list \<Rightarrow> int \<Rightarrow> nat" where
  "spec_pairs_in_segment spike_times window_size =
     length (filter (\<lambda>(i, j). i \<noteq> j \<and>
                       - window_size < spike_times ! i - spike_times ! j \<and>
                       spike_times ! i - spike_times ! j \<le> window_size)
               (List.product [0 ..< length spike_times] [0 ..< length spike_times]))"

definition spec_pair_count :: "sorting \<Rightarrow> int \<Rightarrow> nat" where
  "spec_pair_count sorting window_size =
     sum_list (map (\<lambda>seg. spec_pairs_in_segment (sample_index seg) window_size)
                 (spike_vector sorting))"

subsection \<open>Mirror symmetry of a count tensor\<close>



section \<open>Termination of the shift loop\<close>

text \<open>
  The loop of \<open>correlogram_for_one_segment\<close> ends: a pass never lengthens the mask, and
  the loop condition looks at the first \<open>length mask - shift\<close> entries only, so \<open>shift\<close>
  stays below the length of the mask while the loop runs.
\<close>

lemma length_mask_out: "length (mask_out msk k cond) \<le> length msk"
  by (simp add: mask_out_def)

lemma sign_pass_length:
  "sign_pass sign ts ls b h shift msk c = Inr st \<Longrightarrow> length (fst st) \<le> length msk"
  by (auto simp: sign_pass_def Let_def length_mask_out split: sum.splits if_splits)

lemma list_ex_take_pos: "list_ex id (take (n - shift) msk) \<Longrightarrow> shift < n"
  by (cases "n - shift") auto

termination shift_loop
proof (relation "measure (\<lambda>(ts, ls, b, h, shift, msk, c). length msk - shift)", goal_cases)
  case 1
  show ?case by simp
next
  case (2 ts ls b h shift msk c st1 st2)
  from 2(1) have "shift < length msk" by (rule list_ex_take_pos)
  moreover from 2(2) have "length (fst st1) \<le> length msk" by (rule sign_pass_length)
  moreover from 2(3) have "length (fst st2) \<le> length (fst st1)" by (rule sign_pass_length)
  ultimately show ?case by (cases st2) simp
qed

section \<open>The bin planner\<close>

lemma py_round_nonneg: "0 \<le> x \<Longrightarrow> 0 \<le> py_round x"
  by (auto simp: py_round_def Let_def)

lemma py_int_of_int: "py_int (of_int n) = n"
  by (simp add: py_int_def)

lemma quotient_of_multiple:
  fixes W B :: int
  assumes "B \<noteq> 0" "B dvd W"
  shows "(of_int W :: rat) / of_int B = of_int (W div B)"
  using assms by (auto simp: dvd_def)






text \<open>
  For positive inputs the planner fails exactly when the bin size rounds to 0 or the
  rounded half window is smaller than the bin size.
\<close>

lemma make_bins_fails_iff:
  assumes "0 < sampling_frequency s" "0 < window_ms" "0 < bin_ms"
  shows "(\<exists>e. priv_make_bins s window_ms bin_ms = Inl e) \<longleftrightarrow>
         (py_round (sampling_frequency s * bin_ms / 1000) = 0 \<or>
          py_round (sampling_frequency s * window_ms / 2 / 1000) <
          py_round (sampling_frequency s * bin_ms / 1000))"
proof -
  define B where "B = py_round (sampling_frequency s * bin_ms / 1000)"
  define W0 where "W0 = py_round (sampling_frequency s * window_ms / 2 / 1000)"
  have "0 \<le> sampling_frequency s * bin_ms / 1000" using assms by simp
  then have Bnn: "0 \<le> B" unfolding B_def by (rule py_round_nonneg)
  have "0 \<le> sampling_frequency s * window_ms / 2 / 1000" using assms by simp
  then have W0nn: "0 \<le> W0" unfolding W0_def by (rule py_round_nonneg)
  have unf: "(\<exists>e. priv_make_bins s window_ms bin_ms = Inl e) \<longleftrightarrow>
      (B = 0 \<or> \<not> 1 \<le> 2 * py_int (of_int (W0 - W0 mod B) / of_int B))"
    unfolding priv_make_bins_def Let_def B_def W0_def by simp
  show ?thesis
  proof (cases "B = 0")
    case True
    then show ?thesis using unf by (simp add: B_def)
  next
    case False
    with Bnn have Bpos: "0 < B" by simp
    have "B dvd W0 - W0 mod B" by (simp add: minus_mod_eq_div_mult)
    with False have "(of_int (W0 - W0 mod B) :: rat) / of_int B = of_int ((W0 - W0 mod B) div B)"
      by (rule quotient_of_multiple)
    then have nb: "2 * py_int (of_int (W0 - W0 mod B) / of_int B) = 2 * (W0 div B)"
      by (simp only: py_int_of_int minus_mod_eq_div_mult) (simp add: False)
    have "1 \<le> 2 * (W0 div B) \<longleftrightarrow> 0 < W0 div B" by auto
    also have "\<dots> \<longleftrightarrow> B \<le> W0" using Bpos by (rule pos_imp_zdiv_pos_iff)
    finally have "1 \<le> 2 * (W0 div B) \<longleftrightarrow> B \<le> W0" .
    with False nb unf show ?thesis
      unfolding B_def [symmetric] W0_def [symmetric] by auto
  qed
qed

section \<open>Strategy selection\<close>

text \<open>
  C8, as the code has it. With \<open>method = "auto"\<close> the entry function runs the numba
  strategy when \<open>HAVE_NUMBA\<close> holds and the numpy strategy otherwise, each after
  \<open>_make_bins\<close>. With \<open>method = "numba"\<close> and no numba there is no fallback: after
  \<open>_make_bins\<close> has succeeded, \<open>assert HAVE_NUMBA\<close> in \<open>compute_correlograms_numba\<close>
  fails, so the call never returns a result.
\<close>

theorem strategy_selection:
  "compute_correlograms_on_sorting True s window_ms bin_ms ''auto'' =
     compute_correlograms_on_sorting True s window_ms bin_ms ''numba''
   \<and> compute_correlograms_on_sorting False s window_ms bin_ms ''auto'' =
     compute_correlograms_on_sorting False s window_ms bin_ms ''numpy''
   \<and> compute_correlograms_on_sorting have_numba s window_ms bin_ms ''numpy'' =
       (case priv_make_bins s window_ms bin_ms of
          Inl e \<Rightarrow> Inl e
        | Inr g \<Rightarrow>
           (case compute_correlograms_numpy s (fst (snd g)) (snd (snd g)) of
              Inl e \<Rightarrow> Inl e
            | Inr c \<Rightarrow> Inr (c, fst g)))
   \<and> compute_correlograms_on_sorting True s window_ms bin_ms ''numba'' =
       (case priv_make_bins s window_ms bin_ms of
          Inl e \<Rightarrow> Inl e
        | Inr g \<Rightarrow>
           (case compute_correlograms_numba True s (fst (snd g)) (snd (snd g)) of
              Inl e \<Rightarrow> Inl e
            | Inr c \<Rightarrow> Inr (c, fst g)))
   \<and> compute_correlograms_on_sorting False s window_ms bin_ms ''numba'' =
       (case priv_make_bins s window_ms bin_ms of
          Inl e \<Rightarrow> Inl e
        | Inr g \<Rightarrow> Inl AssertionError)"
  by (simp add: compute_correlograms_on_sorting_def compute_correlograms_numba_def Let_def
        split: sum.splits)

text \<open>
  Without numba, an explicit request for the numba strategy on a sorting with one unit
  and two spikes fails, while the numpy strategy returns a tensor on the same input.
\<close>

theorem no_fallback_counterexample:
  "compute_correlograms_on_sorting False
     \<lparr>sampling_frequency = 30000, unit_ids = [0], spike_vector = [[(0, 0), (29, 0)]]\<rparr>
     2 1 ''numba'' = Inl AssertionError
   \<and> compute_correlograms_on_sorting False
     \<lparr>sampling_frequency = 30000, unit_ids = [0], spike_vector = [[(0, 0), (29, 0)]]\<rparr>
     2 1 ''numpy'' = Inr (Tensor (1, 1, 2) [1, 1], [- 1, 0, 1])"
  by code_simp

section \<open>The functions on single spike trains\<close>

lemma call_one_segment_numba_arity:
  "length args \<noteq> 6 \<Longrightarrow> call_one_segment_numba args = Inl TypeError"
  by (simp add: call_one_segment_numba_def)

text \<open>
  C9, as the code has it. Neither public function ever returns a correlogram. With numba
  they call the six-parameter function with three and four arguments, which raises
  \<open>TypeError\<close>; without numba \<open>assert HAVE_NUMBA\<close> fails before the call.
\<close>

theorem spiketrain_functions_raise:
  "compute_autocorrelogram_from_spiketrain have_numba spike_times window_size bin_size =
     Inl (if have_numba then TypeError else AssertionError)
   \<and> compute_crosscorrelogram_from_spiketrain have_numba spike_times1 spike_times2
       window_size bin_size =
     Inl (if have_numba then TypeError else AssertionError)"
  by (simp add: compute_autocorrelogram_from_spiketrain_def
        compute_crosscorrelogram_from_spiketrain_def call_one_segment_numba_arity)

text \<open>
  Without numba the exception is the failed assertion, not the arity error.
\<close>

theorem spiketrain_functions_counterexample:
  "compute_autocorrelogram_from_spiketrain False [0, 29] 30 30 = Inl AssertionError
   \<and> compute_autocorrelogram_from_spiketrain False [0, 29] 30 30 \<noteq> Inl TypeError
   \<and> compute_crosscorrelogram_from_spiketrain False [0] [29] 30 30 = Inl AssertionError
   \<and> compute_crosscorrelogram_from_spiketrain False [0] [29] 30 30 \<noteq> Inl TypeError"
  by (simp add: compute_autocorrelogram_from_spiketrain_def
        compute_crosscorrelogram_from_spiketrain_def)

section \<open>The array indices of \<open>_compute_autocorr_numba\<close>\<close>

text \<open>
  For a time-ordered spike train and a window that is a multiple of the bin size, the
  increments of \<open>_compute_autocorr_numba\<close> stay inside the array exactly when no two
  spikes are \<open>window_size\<close> samples apart: a difference \<open>d\<close> with \<open>0 \<le> d < window_size\<close>
  goes to the indices \<open>num_half_bins + d div bin_size < num_bins\<close> and
  \<open>num_half_bins + (- d) div bin_size \<ge> 0\<close>, and \<open>d = window_size\<close> goes to \<open>num_bins\<close>.
\<close>

lemma numba_incr_length: "numba_incr arr idx = Inr arr' \<Longrightarrow> length arr' = length arr"
  by (auto simp: numba_incr_def Let_def split: if_splits)

lemma numba_incr_ok_iff:
  "(\<exists>arr'. numba_incr arr idx = Inr arr') \<longleftrightarrow>
     (- int (length arr) \<le> idx \<and> idx < int (length arr))"
  by (auto simp: numba_incr_def Let_def)

lemma div_less_of_less_mult:
  fixes d B h :: int
  assumes "0 < B" "d < h * B"
  shows "d div B < h"
proof (rule ccontr)
  assume "\<not> d div B < h"
  then have "h \<le> d div B" by simp
  with assms(1) have "B * h \<le> B * (d div B)" by (simp add: mult_left_mono)
  moreover have "B * (d div B) \<le> d"
    using mult_div_mod_eq [of B d] pos_mod_sign [of B d] assms(1) by linarith
  ultimately show False using assms(2) by (simp add: mult.commute)
qed

lemma bin_upper:
  fixes d B h :: int
  assumes "0 < B" "d \<le> h * B"
  shows "d div B < h \<longleftrightarrow> d \<noteq> h * B"
proof
  assume "d div B < h"
  then show "d \<noteq> h * B" using assms(1) by auto
next
  assume "d \<noteq> h * B"
  with assms have "d < h * B" by simp
  with assms(1) show "d div B < h" by (rule div_less_of_less_mult)
qed

lemma bin_lower:
  fixes d B h :: int
  assumes "0 < B" "d \<le> h * B"
  shows "- h \<le> (- d) div B"
proof -
  have "- (h * B) \<le> - d" using assms by simp
  then have "(- (h * B)) div B \<le> (- d) div B" using assms(1) by (rule zdiv_mono1)
  moreover have "(- (h * B)) div B = - h" using assms(1) by (simp add: dvd_neg_div)
  ultimately show ?thesis by simp
qed

lemma autocorr_inner_length:
  "autocorr_inner ti rest W B h ac = Inr ac' \<Longrightarrow> length ac' = length ac"
proof (induction rest arbitrary: ac)
  case Nil
  then show ?case by simp
next
  case (Cons tj rest)
  then show ?case
    by (auto simp: Let_def split: if_splits sum.splits dest!: numba_incr_length)
qed

lemma autocorr_inner_ok_iff:
  assumes "0 < B" "0 \<le> h" "W = h * B" "length ac = nat (2 * h)"
    and "sorted (ti # rest)"
  shows "(\<exists>ac'. autocorr_inner ti rest W B h ac = Inr ac') \<longleftrightarrow>
         (\<forall>tj \<in> set rest. tj - ti \<noteq> W)"
  using assms(4,5)
proof (induction rest arbitrary: ac)
  case Nil
  then show ?case by simp
next
  case (Cons tj rest)
  have d0: "0 \<le> tj - ti" using Cons.prems(2) by simp
  have srt: "sorted (ti # rest)" using Cons.prems(2) by auto
  show ?case
  proof (cases "tj - ti > W")
    case True
    have "\<forall>t \<in> set rest. tj \<le> t" using Cons.prems(2) by auto
    with True have "\<forall>t \<in> set rest. t - ti \<noteq> W" by auto
    with True show ?thesis by (simp add: Let_def)
  next
    case False
    then have dW: "tj - ti \<le> h * B" using assms(3) by simp
    have lo: "- h \<le> (- (tj - ti)) div B" using assms(1) dW by (rule bin_lower)
    have "- (tj - ti) \<le> 0" using d0 by simp
    then have "(- (tj - ti)) div B \<le> 0 div B" using assms(1) by (rule zdiv_mono1)
    then have hi: "(- (tj - ti)) div B \<le> 0" by simp
    have up: "(tj - ti) div B < h \<longleftrightarrow> tj - ti \<noteq> h * B" using assms(1) dW by (rule bin_upper)
    have nn: "0 \<le> (tj - ti) div B" using assms(1) d0 by (simp add: pos_imp_zdiv_nonneg_iff)
    show ?thesis
    proof (cases "tj - ti = W")
      case True
      then have "(tj - ti) div B = h" using assms(1,3) by simp
      then have "numba_incr ac (h + (tj - ti) div B) = Inl (OutOfBounds (h + h) (length ac))"
        using Cons.prems(1) assms(2) by (simp add: numba_incr_def Let_def)
      with True False show ?thesis by (simp add: Let_def)
    next
      case ne: False
      with up assms(3) have lt: "(tj - ti) div B < h" by simp
      from lt nn obtain ac1 where 1: "numba_incr ac (h + (tj - ti) div B) = Inr ac1"
        using numba_incr_ok_iff [of ac "h + (tj - ti) div B"] Cons.prems(1) assms(2)
        by auto
      then have l1: "length ac1 = nat (2 * h)" using Cons.prems(1) by (simp add: numba_incr_length)
      from lt nn have hpos: "0 < h" by simp
      from lo hi hpos obtain ac2 where 2: "numba_incr ac1 (h + (- (tj - ti)) div B) = Inr ac2"
        using numba_incr_ok_iff [of ac1 "h + (- (tj - ti)) div B"] l1
        by auto
      then have l2: "length ac2 = nat (2 * h)" using l1 by (simp add: numba_incr_length)
      from Cons.IH [OF l2 srt] 1 2 ne False show ?thesis by (simp add: Let_def)
    qed
  qed
qed

lemma autocorr_outer_ok_iff:
  assumes "0 < B" "0 \<le> h" "W = h * B"
  shows "length ac = nat (2 * h) \<Longrightarrow> sorted ts \<Longrightarrow>
         (\<exists>ac'. autocorr_outer ts W B h ac = Inr ac') \<longleftrightarrow>
         sorted_wrt (\<lambda>a b. b - a \<noteq> W) ts"
proof (induction ts arbitrary: ac)
  case Nil
  then show ?case by simp
next
  case (Cons ti rest)
  have inner: "(\<exists>ac'. autocorr_inner ti rest W B h ac = Inr ac') \<longleftrightarrow>
         (\<forall>tj \<in> set rest. tj - ti \<noteq> W)"
    using assms Cons.prems by (rule autocorr_inner_ok_iff)
  show ?case
  proof (cases "autocorr_inner ti rest W B h ac")
    case (Inl e)
    with inner show ?thesis by auto
  next
    case (Inr ac1)
    then have "length ac1 = nat (2 * h)" using Cons.prems(1) by (simp add: autocorr_inner_length)
    moreover have "sorted rest" using Cons.prems(2) by simp
    ultimately have "(\<exists>ac'. autocorr_outer rest W B h ac1 = Inr ac') \<longleftrightarrow>
         sorted_wrt (\<lambda>a b. b - a \<noteq> W) rest"
      by (rule Cons.IH)
    with Inr inner show ?thesis by auto
  qed
qed

lemma autocorr_in_bounds_iff:
  assumes "sorted spike_times" "0 < bin_size" "bin_size dvd window_size" "0 \<le> window_size"
  shows "(\<exists>auto_corr. priv_compute_autocorr_numba spike_times window_size bin_size =
            Inr auto_corr) \<longleftrightarrow>
         sorted_wrt (\<lambda>a b. b - a \<noteq> window_size) spike_times"
proof -
  define h where "h = window_size div bin_size"
  have h0: "0 \<le> h" using assms(2,4) by (simp add: h_def pos_imp_zdiv_nonneg_iff)
  have W: "window_size = h * bin_size" using assms(3) by (simp add: h_def)
  have "length (replicate (nat (2 * h)) (0::int)) = nat (2 * h)" by simp
  from autocorr_outer_ok_iff [OF assms(2) h0 W this assms(1)] h0 assms(2)
  show ?thesis by (simp add: priv_compute_autocorr_numba_def Let_def h_def)
qed

text \<open>
  Any two spikes exactly \<open>window_size\<close> apart send the first increment to the index
  \<open>num_bins\<close>.
\<close>

lemma numba_incr_at_length:
  "0 \<le> n \<Longrightarrow> length arr = nat n \<Longrightarrow> numba_incr arr n = Inl (OutOfBounds n (nat n))"
  by (simp add: numba_incr_def Let_def)

lemma autocorr_out_of_bounds_at_window:
  assumes "0 < bin_size" "bin_size dvd window_size" "0 \<le> window_size"
  shows "priv_compute_autocorr_numba [t, t + window_size] window_size bin_size =
           Inl (OutOfBounds (2 * (window_size div bin_size))
                  (nat (2 * (window_size div bin_size))))"
proof -
  have nn: "0 \<le> window_size div bin_size"
    using assms by (simp add: pos_imp_zdiv_nonneg_iff)
  have "window_size div bin_size + window_size div bin_size = 2 * (window_size div bin_size)"
    by simp
  then show ?thesis
    using assms nn
    by (simp add: priv_compute_autocorr_numba_def Let_def numba_incr_at_length)
qed

text \<open>
  C10. Two spikes of one unit exactly \<open>window_size = 30\<close> samples apart, with
  \<open>bin_size = 30\<close>: the difference 30 is not greater than the window, so
  \<open>_compute_autocorr_numba\<close> goes on to \<open>auto_corr[num_half_bins + 1]\<close>, index 2 of an
  array of \<open>num_bins = 2\<close> entries.
\<close>

theorem autocorr_index_out_of_bounds:
  "priv_compute_autocorr_numba [0, 30] 30 30 = Inl (OutOfBounds 2 2)"
  by code_simp

section \<open>Sortings without spikes\<close>

text \<open>
  On segments without spikes the numba strategy adds zero correlograms to the zero tensor
  of \<open>len(sorting.unit_ids)\<close> units, whatever the number of units and of segments.
\<close>

lemma times_of_unit_empty: "times_of_unit [] [] i = []"
  by (simp add: times_of_unit_def np_select_def)

lemma autocorr_empty:
  "bin_size \<noteq> 0 \<Longrightarrow> 0 \<le> window_size div bin_size \<Longrightarrow>
   priv_compute_autocorr_numba [] window_size bin_size =
     Inr (replicate (nat (2 * (window_size div bin_size))) 0)"
  by (simp add: priv_compute_autocorr_numba_def Let_def)

lemma crosscorr_empty:
  "bin_size \<noteq> 0 \<Longrightarrow> 0 \<le> window_size div bin_size \<Longrightarrow>
   priv_compute_crosscorr_numba [] spike_times2 window_size bin_size =
     Inr (replicate (nat (2 * (window_size div bin_size))) 0)"
  by (simp add: priv_compute_crosscorr_numba_def Let_def)

lemma map2_add_zeros: "length ys = n \<Longrightarrow> map2 (+) ys (replicate n (0::int)) = ys"
proof (induction ys arbitrary: n)
  case Nil
  then show ?case by simp
next
  case (Cons y ys)
  then obtain m where "n = Suc m" by (cases n) auto
  with Cons show ?case by simp
qed

lemma slice_offset_bound:
  fixes i j d0 d1 d2 :: nat
  assumes "i < d0" "j < d1"
  shows "(i * d1 + j) * d2 + d2 \<le> d0 * d1 * d2"
proof -
  have "i * d1 + j + 1 \<le> i * d1 + d1" using assms(2) by simp
  also have "\<dots> = Suc i * d1" by simp
  also have "\<dots> \<le> d0 * d1" using assms(1) by (intro mult_le_mono1) simp
  finally have "(i * d1 + j + 1) * d2 \<le> d0 * d1 * d2" by (rule mult_le_mono1)
  then show ?thesis by (simp add: algebra_simps)
qed

lemma add_slice_zeros:
  assumes "i < d0" "j < d1" "length xs = d0 * d1 * d2"
  shows "add_slice (Tensor (d0, d1, d2) xs) i j (replicate d2 0) = Inr (Tensor (d0, d1, d2) xs)"
proof -
  let ?off = "(i * d1 + j) * d2"
  have bound: "?off + d2 \<le> length xs" using assms by (simp add: slice_offset_bound)
  then have "length (take d2 (drop ?off xs)) = d2" by simp
  then have "map2 (+) (take d2 (drop ?off xs)) (replicate d2 0) = take d2 (drop ?off xs)"
    by (rule map2_add_zeros)
  moreover have "take ?off xs @ take d2 (drop ?off xs) @ drop (?off + d2) xs = xs"
    by (metis add.commute append_take_drop_id drop_drop)
  ultimately show ?thesis using assms by (simp add: add_slice_def)
qed

lemma numba_units_inner_empty:
  assumes "bin_size \<noteq> 0" "0 \<le> window_size div bin_size"
    and "d2 = nat (2 * (window_size div bin_size))" "length xs = d * d * d2" "i < d"
  shows "\<forall>j \<in> set js. j < d \<Longrightarrow>
         numba_units_inner i [] js [] [] window_size bin_size (Tensor (d, d, d2) xs) =
           Inr (Tensor (d, d, d2) xs)"
proof (induction js)
  case Nil
  then show ?case by simp
next
  case (Cons j js)
  then have j: "j < d" by simp
  have a: "add_slice (Tensor (d, d, d2) xs) i j (replicate d2 0) = Inr (Tensor (d, d, d2) xs)"
    using assms(5) j assms(4) by (rule add_slice_zeros)
  have b: "add_slice (Tensor (d, d, d2) xs) j i (replicate d2 0) = Inr (Tensor (d, d, d2) xs)"
    using j assms(5) assms(4) by (rule add_slice_zeros)
  have ih: "numba_units_inner i [] js [] [] window_size bin_size (Tensor (d, d, d2) xs) =
           Inr (Tensor (d, d, d2) xs)"
    using Cons by simp
  show ?case
  proof (cases "i = j")
    case True
    with a ih assms(1,2) show ?thesis
      by (simp add: Let_def times_of_unit_empty autocorr_empty assms(3) [symmetric])
  next
    case False
    with a b ih assms(1,2) show ?thesis
      by (simp add: Let_def times_of_unit_empty crosscorr_empty assms(3) [symmetric])
  qed
qed

lemma numba_units_outer_empty:
  assumes "bin_size \<noteq> 0" "0 \<le> window_size div bin_size"
    and "d2 = nat (2 * (window_size div bin_size))" "length xs = d * d * d2"
  shows "\<forall>i \<in> set is. i < d \<Longrightarrow>
         numba_units_outer is d [] [] window_size bin_size (Tensor (d, d, d2) xs) =
           Inr (Tensor (d, d, d2) xs)"
proof (induction "is")
  case Nil
  then show ?case by simp
next
  case (Cons i "is")
  then have i: "i < d" by simp
  have "\<forall>j \<in> set [i ..< d]. j < d" by simp
  with assms i have "numba_units_inner i [] [i ..< d] [] [] window_size bin_size
      (Tensor (d, d, d2) xs) = Inr (Tensor (d, d, d2) xs)"
    by (rule numba_units_inner_empty)
  with Cons show ?case by (simp add: times_of_unit_empty)
qed

lemma numba_kernel_empty:
  assumes "bin_size \<noteq> 0" "0 \<le> window_size div bin_size"
    and "d2 = nat (2 * (window_size div bin_size))" "length xs = d * d * d2"
  shows "priv_compute_correlograms_numba (Tensor (d, d, d2) xs) [] [] window_size bin_size =
           Inr (Tensor (d, d, d2) xs)"
proof -
  have "\<forall>i \<in> set [0 ..< d]. i < d" by simp
  with assms have "numba_units_outer [0 ..< d] d [] [] window_size bin_size
      (Tensor (d, d, d2) xs) = Inr (Tensor (d, d, d2) xs)"
    by (rule numba_units_outer_empty)
  then show ?thesis by (simp add: priv_compute_correlograms_numba_def)
qed

lemma numba_segments_empty:
  assumes "bin_size \<noteq> 0" "0 \<le> window_size div bin_size"
    and "d2 = nat (2 * (window_size div bin_size))" "length xs = d * d * d2"
  shows "\<forall>seg \<in> set segs. seg = [] \<Longrightarrow>
         numba_segments segs window_size bin_size (Tensor (d, d, d2) xs) =
           Inr (Tensor (d, d, d2) xs)"
proof (induction segs)
  case Nil
  then show ?case by simp
next
  case (Cons seg segs)
  then show ?case
    using numba_kernel_empty [OF assms]
    by (simp add: sample_index_def unit_index_def)
qed

lemma numba_zero_on_empty_input:
  assumes "bin_size \<noteq> 0" "0 \<le> window_size div bin_size"
    and "\<forall>seg \<in> set (spike_vector s). seg = []"
  shows "compute_correlograms_numba True s window_size bin_size =
           Inr (Tensor (length (unit_ids s), length (unit_ids s),
                        nat (2 * (window_size div bin_size)))
                  (replicate (length (unit_ids s) * length (unit_ids s) *
                              nat (2 * (window_size div bin_size))) 0))"
proof -
  have len: "length (replicate (length (unit_ids s) * length (unit_ids s) *
                              nat (2 * (window_size div bin_size))) (0::int)) =
        length (unit_ids s) * length (unit_ids s) * nat (2 * (window_size div bin_size))"
    by simp
  from numba_segments_empty [OF assms(1,2) refl len assms(3)] assms(1,2)
  show ?thesis
    by (simp add: compute_correlograms_numba_def priv_compute_num_bins_def np_zeros3_def Let_def)
qed

lemma correlogram_for_one_segment_empty:
  assumes "bin_size \<noteq> 0" "0 \<le> window_size div bin_size"
  shows "correlogram_for_one_segment [] [] window_size bin_size =
           Inr (Tensor (0, 0, nat (2 * (window_size div bin_size))) [])"
  using assms
  by (simp add: correlogram_for_one_segment_def priv_compute_num_bins_def np_zeros3_def
        Let_def shift_loop.simps [of _ _ _ _ _ "[]"])

lemma np_iadd_no_units:
  "0 < d \<Longrightarrow> np_iadd (Tensor (d, d, n) xs) (Tensor (0, 0, n) []) = Inl ValueError"
  by (simp add: np_iadd_def)

text \<open>
  The numpy strategy raises on every sorting with at least one unit whose first segment
  has no spikes.
\<close>

lemma numpy_raises_on_empty_first_segment:
  assumes "bin_size \<noteq> 0" "0 \<le> window_size div bin_size"
    and "unit_ids s \<noteq> []" and "spike_vector s = [] # segs"
  shows "compute_correlograms_numpy s window_size bin_size = Inl ValueError"
  using assms
  by (simp add: compute_correlograms_numpy_def priv_compute_num_bins_def np_zeros3_def Let_def
        sample_index_def unit_index_def correlogram_for_one_segment_empty np_iadd_no_units)

text \<open>
  C5. A sorting with two units and one segment without spikes: the numpy strategy
  builds the segment's tensor with \<open>len(np.unique(spike_labels)) = 0\<close> units, and adding
  its shape \<open>(0, 0, 2)\<close> to the shape \<open>(2, 2, 2)\<close> raises \<open>ValueError\<close>. The numba strategy
  returns the zero tensor of shape \<open>(2, 2, 2)\<close>.
\<close>

theorem empty_segment_numpy_raises:
  "compute_correlograms_on_sorting True
     \<lparr>sampling_frequency = 30000, unit_ids = [0, 1], spike_vector = [[]]\<rparr>
     2 1 ''numpy'' = Inl ValueError
   \<and> correlogram_for_one_segment [] [] 30 30 = Inr (Tensor (0, 0, 2) [])
   \<and> np_iadd (Tensor (2, 2, 2) [0, 0, 0, 0, 0, 0, 0, 0]) (Tensor (0, 0, 2) []) =
       Inl ValueError
   \<and> compute_correlograms_on_sorting True
     \<lparr>sampling_frequency = 30000, unit_ids = [0, 1], spike_vector = [[]]\<rparr>
     2 1 ''numba'' = Inr (Tensor (2, 2, 2) [0, 0, 0, 0, 0, 0, 0, 0], [- 1, 0, 1])"
  by code_simp

section \<open>Mirror symmetry away from the bin edges\<close>

text \<open>
  Both strategies bin a signed difference by floor division, so a difference that is an
  exact multiple of the bin size lies on the lower edge of its bin, while its negation
  lies on the lower edge of a bin that is not the mirror image. Away from these edges
  the returned tensor is mirror symmetric, which this section proves for both
  strategies.
\<close>

subsection \<open>Row-major indices\<close>


lemma idx_div:
  fixes a b k d1 d2 :: nat
  assumes "k < d2"
  shows "((a * d1 + b) * d2 + k) div d2 = a * d1 + b" "((a * d1 + b) * d2 + k) mod d2 = k"
  using assms by simp_all


subsection \<open>Slices\<close>





subsection \<open>Adding to a slice\<close>








subsection \<open>The numba autocorrelogram is a palindrome away from bin edges\<close>








subsection \<open>The length of a numba cross-correlogram\<close>

lemma crosscorr_inner_length:
  "crosscorr_inner ti rest W B h cc sj = Inr st \<Longrightarrow> length (fst st) = length cc"
proof (induction rest arbitrary: cc sj)
  case Nil
  then show ?case by auto
next
  case (Cons tj rest)
  then show ?case
    by (auto simp: Let_def split: if_splits sum.splits dest!: numba_incr_length)
qed

lemma crosscorr_outer_length:
  "crosscorr_outer ts ts2 W B h cc sj = Inr cc' \<Longrightarrow> length cc' = length cc"
proof (induction ts arbitrary: cc sj)
  case Nil
  then show ?case by simp
next
  case (Cons ti rest)
  then show ?case
    by (auto split: sum.splits dest!: crosscorr_inner_length)
qed

lemma crosscorr_length:
  assumes "priv_compute_crosscorr_numba spike_times1 spike_times2 window_size bin_size = Inr cc"
  shows "length cc = nat (2 * (window_size div bin_size))"
  using assms
  by (auto simp: priv_compute_crosscorr_numba_def Let_def split: if_splits
        dest!: crosscorr_outer_length)

subsection \<open>The numba strategy returns mirror-symmetric tensors away from bin edges\<close>








subsection \<open>The numpy strategy: counting a list of flat indices\<close>








subsection \<open>Boolean-mask selection\<close>

lemma np_select_Nil [simp]: "np_select [] m = []" "np_select xs [] = []"
  by (simp_all add: np_select_def)



subsection \<open>Counting a list of cells together with its mirror image\<close>



subsection \<open>One shift of the loop of \<open>correlogram_for_one_segment\<close>\<close>



lemma mask_out_idem:
  assumes "length cond = k" "k \<le> length msk"
  shows "mask_out (mask_out msk k cond) k cond = mask_out msk k cond"
proof -
  define A where "A = map2 (\<lambda>alive c. alive \<and> \<not> c) (take k msk) cond"
  define D where "D = drop k msk"
  have lA: "length A = k" using assms by (simp add: A_def)
  have AA: "map2 (\<lambda>alive c. alive \<and> \<not> c) A cond = A"
    unfolding A_def by (rule nth_equalityI) auto
  have m: "mask_out msk k cond = A @ D" by (simp add: mask_out_def A_def D_def)
  have "mask_out (A @ D) k cond = A @ D"
    using lA AA by (simp add: mask_out_def)
  then show ?thesis by (simp add: m)
qed







subsection \<open>The numpy strategy returns mirror-symmetric tensors away from bin edges\<close>







subsection \<open>Mirror symmetry of the returned tensor\<close>





section \<open>The two counting strategies on concrete spike trains\<close>

text \<open>
  The scenario of the specification: unit 0 with spikes at 0, 10, 20 and unit 1 with
  spikes at 5, 15, \<open>window_size = 12\<close>, \<open>bin_size = 4\<close>. No two spikes within the window are a
  multiple of the bin size apart, and the two strategies return the same tensor.
\<close>

lemma strategies_agree_on_scenario:
  "compute_correlograms_numpy
     \<lparr>sampling_frequency = 30000, unit_ids = [0, 1],
      spike_vector = [[(0, 0), (5, 1), (10, 0), (15, 1), (20, 0)]]\<rparr> 12 4 =
     Inr (Tensor (2, 2, 6)
            [2, 0, 0, 0, 0, 2,  0, 2, 0, 0, 2, 0,  0, 2, 0, 0, 2, 0,  1, 0, 0, 0, 0, 1])
   \<and> compute_correlograms_numba True
     \<lparr>sampling_frequency = 30000, unit_ids = [0, 1],
      spike_vector = [[(0, 0), (5, 1), (10, 0), (15, 1), (20, 0)]]\<rparr> 12 4 =
     Inr (Tensor (2, 2, 6)
            [2, 0, 0, 0, 0, 2,  0, 2, 0, 0, 2, 0,  0, 2, 0, 0, 2, 0,  1, 0, 0, 0, 0, 1])"
  by code_simp



text \<open>
  C1. Two units, unit 0 with a spike at sample 0 and unit 1 with a spike at sample 30;
  at 30000 Hz a window of 4 ms and bins of 1 ms give \<open>window_size = 60\<close> and
  \<open>bin_size = 30\<close>. The strategies agree on \<open>tensor[0, 1, :]\<close> and differ on
  \<open>tensor[1, 0, :]\<close>: numpy bins the difference \<open>+30\<close> by floor division into bin 3, numba
  mirrors the bin of \<open>-30\<close> into bin 2.
\<close>

theorem strategies_differ:
  "compute_correlograms_on_sorting True
     \<lparr>sampling_frequency = 30000, unit_ids = [0, 1], spike_vector = [[(0, 0), (30, 1)]]\<rparr>
     4 1 ''numpy'' =
     Inr (Tensor (2, 2, 4) [0, 0, 0, 0,  0, 1, 0, 0,  0, 0, 0, 1,  0, 0, 0, 0],
          [- 2, - 1, 0, 1, 2])
   \<and> compute_correlograms_on_sorting True
     \<lparr>sampling_frequency = 30000, unit_ids = [0, 1], spike_vector = [[(0, 0), (30, 1)]]\<rparr>
     4 1 ''numba'' =
     Inr (Tensor (2, 2, 4) [0, 0, 0, 0,  0, 1, 0, 0,  0, 0, 1, 0,  0, 0, 0, 0],
          [- 2, - 1, 0, 1, 2])
   \<and> slice3 (Tensor (2, 2, 4) [0, 0, 0, 0,  0, 1, 0, 0,  0, 0, 0, 1,  0, 0, 0, 0]) 1 0 =
       [0, 0, 0, 1]
   \<and> slice3 (Tensor (2, 2, 4) [0, 0, 0, 0,  0, 1, 0, 0,  0, 0, 1, 0,  0, 0, 0, 0]) 1 0 =
       [0, 0, 1, 0]
   \<and> compute_correlograms_on_sorting True
     \<lparr>sampling_frequency = 30000, unit_ids = [0, 1], spike_vector = [[(0, 0), (30, 1)]]\<rparr>
     4 1 ''numpy'' \<noteq>
     compute_correlograms_on_sorting True
     \<lparr>sampling_frequency = 30000, unit_ids = [0, 1], spike_vector = [[(0, 0), (30, 1)]]\<rparr>
     4 1 ''numba''"
  by code_simp

text \<open>
  C4. With \<open>window_size = bin_size = 30\<close>. For unit 0 at sample 0 and unit 1 at sample 30
  the specification counts one ordered pair (difference \<open>+30\<close>, not \<open>-30\<close>); the numpy
  strategy returns a tensor of total 1 and the numba strategy one of total 2, the
  cross-correlogram and its mirror. For unit 0 at samples 0 and 30 and unit 1 at sample
  30 the specification counts four ordered pairs, and the numpy strategy returns a
  tensor of total 3: at shift 1 the pass for the positive sign masks spike 0, so its
  pair with the third spike, again 30 samples apart, is never looked at.
\<close>

theorem conservation_fails:
  "compute_correlograms_on_sorting True
     \<lparr>sampling_frequency = 30000, unit_ids = [0, 1], spike_vector = [[(0, 0), (30, 1)]]\<rparr>
     2 1 ''numba'' = Inr (Tensor (2, 2, 2) [0, 0,  1, 0,  0, 1,  0, 0], [- 1, 0, 1])
   \<and> tensor_total (Tensor (2, 2, 2) [0, 0,  1, 0,  0, 1,  0, 0]) = 2
   \<and> compute_correlograms_on_sorting True
     \<lparr>sampling_frequency = 30000, unit_ids = [0, 1], spike_vector = [[(0, 0), (30, 1)]]\<rparr>
     2 1 ''numpy'' = Inr (Tensor (2, 2, 2) [0, 0,  1, 0,  0, 0,  0, 0], [- 1, 0, 1])
   \<and> spec_pair_count
       \<lparr>sampling_frequency = 30000, unit_ids = [0, 1], spike_vector = [[(0, 0), (30, 1)]]\<rparr>
       30 = 1
   \<and> compute_correlograms_on_sorting True
     \<lparr>sampling_frequency = 30000, unit_ids = [0, 1],
      spike_vector = [[(0, 0), (30, 0), (30, 1)]]\<rparr>
     2 1 ''numpy'' = Inr (Tensor (2, 2, 2) [1, 0,  0, 1,  0, 1,  0, 0], [- 1, 0, 1])
   \<and> tensor_total (Tensor (2, 2, 2) [1, 0,  0, 1,  0, 1,  0, 0]) = 3
   \<and> spec_pair_count
       \<lparr>sampling_frequency = 30000, unit_ids = [0, 1],
        spike_vector = [[(0, 0), (30, 0), (30, 1)]]\<rparr>
       30 = 4"
  by code_simp

end
